theory Spec2Isabelle
  imports Main "HOL-Library.Word"
begin

section \<open>Python values as the handler sees them\<close>

text \<open>
  Everything the handler touches is a JSON-shaped Python value: the invocation event,
  the decoded request body, the decoded upstream response. A Python \<open>dict\<close> is an
  association list in insertion order (\<open>json.loads\<close> yields no duplicate keys; a lookup
  takes the first binding). A Python \<open>float\<close> is kept as its IEEE-754 bit pattern: the
  handler never computes with one, it only asks whether it is zero.
\<close>

datatype json =
    JNull
  | JBool bool
  | JInt int
  | JFloat "64 word"
  | JStr string
  | JArr "json list"
  | JObj "(string \<times> json) list"

text \<open>\<open>type(v).__name__\<close>, as it appears in the interpreter's error messages.\<close>

fun type_name :: "json \<Rightarrow> string" where
  "type_name JNull = ''NoneType''"
| "type_name (JBool b) = ''bool''"
| "type_name (JInt i) = ''int''"
| "type_name (JFloat w) = ''float''"
| "type_name (JStr s) = ''str''"
| "type_name (JArr xs) = ''list''"
| "type_name (JObj d) = ''dict''"

text \<open>
  Truth value testing (\<open>if v\<close>, \<open>not v\<close>, \<open>a and b\<close>): \<open>None\<close>, \<open>False\<close>, zero, and the
  empty string, list and dict are false. A float is zero when its bits with the sign
  cleared are zero (\<open>+0.0\<close> and \<open>-0.0\<close>); a NaN is true.
\<close>

fun truthy :: "json \<Rightarrow> bool" where
  "truthy JNull = False"
| "truthy (JBool b) = b"
| "truthy (JInt i) = (i \<noteq> 0)"
| "truthy (JFloat w) = (push_bit 1 w \<noteq> 0)"
| "truthy (JStr s) = (s \<noteq> [])"
| "truthy (JArr xs) = (xs \<noteq> [])"
| "truthy (JObj d) = (d \<noteq> [])"

section \<open>Exceptions\<close>

text \<open>
  The classes of exception that can be raised inside the handler's \<open>try\<close> block, each
  one standing for itself and its subclasses. \<open>requests.exceptions.JSONDecodeError\<close>
  (raised by \<open>response.json()\<close>) inherits from both \<open>RequestException\<close> and
  \<open>json.JSONDecodeError\<close>, so it is a class of its own. An exception carries its
  \<open>str(e)\<close>.
\<close>

datatype exc_class =
    Timeout
  | HTTPError
  | RequestsJSONDecodeError
  | OtherRequestException
  | JSONDecodeError
  | AttributeError
  | TypeError
  | IndexError
  | KeyError
  | OtherException

datatype exn = Exn exc_class string

fun exn_class :: "exn \<Rightarrow> exc_class" where
  "exn_class (Exn c m) = c"

fun str_exn :: "exn \<Rightarrow> string" where
  "str_exn (Exn c m) = m"

text \<open>\<open>isinstance(e, requests.exceptions.Timeout)\<close>\<close>

fun is_Timeout :: "exc_class \<Rightarrow> bool" where
  "is_Timeout Timeout = True"
| "is_Timeout c = False"

text \<open>\<open>isinstance(e, requests.exceptions.RequestException)\<close>\<close>

fun is_RequestException :: "exc_class \<Rightarrow> bool" where
  "is_RequestException Timeout = True"
| "is_RequestException HTTPError = True"
| "is_RequestException RequestsJSONDecodeError = True"
| "is_RequestException OtherRequestException = True"
| "is_RequestException c = False"

text \<open>\<open>isinstance(e, json.JSONDecodeError)\<close>\<close>

fun is_JSONDecodeError :: "exc_class \<Rightarrow> bool" where
  "is_JSONDecodeError JSONDecodeError = True"
| "is_JSONDecodeError RequestsJSONDecodeError = True"
| "is_JSONDecodeError c = False"

section \<open>The Python operations the handler uses\<close>

definition quoted :: "string \<Rightarrow> string" where
  "quoted s = [CHR 0x27] @ s @ [CHR 0x27]"

text \<open>\<open>d.get(k, default)\<close> on a dict.\<close>

definition dict_get :: "(string \<times> json) list \<Rightarrow> string \<Rightarrow> json \<Rightarrow> json" where
  "dict_get d k dflt = (case map_of d k of None \<Rightarrow> dflt | Some v \<Rightarrow> v)"

text \<open>
  \<open>v.get(k, default)\<close> on any value: only a dict has the method, every other value
  raises \<open>AttributeError\<close>.
\<close>

fun py_get :: "json \<Rightarrow> string \<Rightarrow> json \<Rightarrow> exn + json" where
  "py_get (JObj d) k dflt = Inr (dict_get d k dflt)"
| "py_get v k dflt =
     Inl (Exn AttributeError (quoted (type_name v) @ '' object has no attribute '' @ quoted ''get''))"

text \<open>
  \<open>v[0]\<close>: the first element of a list, the first character of a string,
  \<open>IndexError\<close> when either is empty, \<open>KeyError\<close> on a dict (its keys are strings),
  \<open>TypeError\<close> on everything else.
\<close>

fun py_index0 :: "json \<Rightarrow> exn + json" where
  "py_index0 (JArr []) = Inl (Exn IndexError ''list index out of range'')"
| "py_index0 (JArr (x # xs)) = Inr x"
| "py_index0 (JStr []) = Inl (Exn IndexError ''string index out of range'')"
| "py_index0 (JStr (c # cs)) = Inr (JStr [c])"
| "py_index0 (JObj d) = Inl (Exn KeyError ''0'')"
| "py_index0 v = Inl (Exn TypeError (quoted (type_name v) @ '' object is not subscriptable''))"

text \<open>
  \<open>for x in v\<close>: the elements of a list, the characters of a string, the keys of a
  dict; \<open>TypeError\<close> on everything else.
\<close>

fun py_iter :: "json \<Rightarrow> exn + json list" where
  "py_iter (JArr xs) = Inr xs"
| "py_iter (JStr s) = Inr (map (\<lambda>c. JStr [c]) s)"
| "py_iter (JObj d) = Inr (map (\<lambda>kv. JStr (fst kv)) d)"
| "py_iter v = Inl (Exn TypeError (quoted (type_name v) @ '' object is not iterable''))"

section \<open>The libraries and the upstream service\<close>

text \<open>
  What \<open>requests.post\<close> is called with, and the part of its \<open>Response\<close> the handler
  uses: the status code, the message \<open>raise_for_status\<close> would raise with, and what
  \<open>response.json()\<close> does (return a value or raise).
\<close>

record request =
  req_url :: string
  req_headers :: "(string \<times> string) list"
  req_data :: string
  req_timeout :: int

record response =
  status_code :: int
  http_error_msg :: string
  json_result :: "exn + json"

text \<open>
  The handler's surroundings: \<open>json.loads\<close> on a string, \<open>json.dumps\<close>, and
  \<open>requests.post\<close>. They are not code of the repository; the handler is modelled for
  any behaviour of them.
\<close>

record env =
  json_loads :: "string \<Rightarrow> exn + json"
  json_dumps :: "json \<Rightarrow> string"
  requests_post :: "request \<Rightarrow> exn + response"

text \<open>\<open>json.loads(v)\<close> on any value: a value that is not a string raises \<open>TypeError\<close>.\<close>

definition py_json_loads :: "env \<Rightarrow> json \<Rightarrow> exn + json" where
  "py_json_loads env v =
     (case v of
        JStr s \<Rightarrow> json_loads env s
      | _ \<Rightarrow> Inl (Exn TypeError (''the JSON object must be str, bytes or bytearray, not '' @ type_name v)))"

text \<open>\<open>response.raise_for_status()\<close>: an \<open>HTTPError\<close> for a 4xx or 5xx status.\<close>

definition raise_for_status :: "response \<Rightarrow> exn + unit" where
  "raise_for_status r =
     (if 400 \<le> status_code r \<and> status_code r < 600
      then Inl (Exn HTTPError (http_error_msg r))
      else Inr ())"

section \<open>Configuration\<close>

definition MODEL_NAME :: string where
  "MODEL_NAME = ''gemini-2.5-flash-preview-09-2025''"

text \<open>
  \<open>GEMINI_API_KEY = os.environ.get("GEMINI_API_KEY")\<close> is a string or \<open>None\<close>; the
  f-string formats \<open>None\<close> as \<open>None\<close>.
\<close>

definition API_URL :: "string option \<Rightarrow> string" where
  "API_URL key =
     ''https://generativelanguage.googleapis.com/v1beta/models/'' @ MODEL_NAME
       @ '':generateContent?key='' @ (case key of None \<Rightarrow> ''None'' | Some k \<Rightarrow> k)"

definition SYSTEM_PROMPT :: string where
  "SYSTEM_PROMPT =
     [CHR 0x0A] @
     ''You are a Senior UI/UX and AI Research Analyst focused on modern web application development. Your task is to perform web search using the provided tools and collect high-quality, up-to-date resources for building an AI-powered website builder with exceptional UI/UX, similar to lovable.dev.''
     @ [CHR 0x0A] @
     ''Analyze the user'' @ [CHR 0x27] @ ''s request and provide the most relevant and powerful technologies and concepts. Your output MUST strictly adhere to the provided JSON schema. Do not include any introductory or concluding text outside of the JSON block.''
     @ [CHR 0x0A] @
     ''Ensure all entries are well-researched, current, and directly relate to building a modern, performant, and user-friendly web application.''
     @ [CHR 0x0A]"

text \<open>
  The schema of one category: an array of objects with a name and a summary. The two
  copies of the handler differ in one place: the copy under \<open>netlify/functions\<close> leaves
  the \<open>required\<close> list out of the items of \<open>aiApiConcepts\<close>.
\<close>

definition schema_items :: "string \<Rightarrow> string \<Rightarrow> bool \<Rightarrow> json" where
  "schema_items name_description summary_description with_required =
     JObj ([(''type'', JStr ''OBJECT''),
            (''properties'', JObj
               [(''name'', JObj [(''type'', JStr ''STRING''), (''description'', JStr name_description)]),
                (''summary'', JObj [(''type'', JStr ''STRING''), (''description'', JStr summary_description)])])]
           @ (if with_required then [(''required'', JArr [JStr ''name'', JStr ''summary''])] else []))"

definition schema_category :: "string \<Rightarrow> json \<Rightarrow> json" where
  "schema_category description items =
     JObj [(''type'', JStr ''ARRAY''), (''description'', JStr description), (''items'', items)]"

definition response_schema :: "bool \<Rightarrow> json" where
  "response_schema ai_required =
     JObj [(''type'', JStr ''OBJECT''),
           (''properties'', JObj
              [(''designPrinciples'', schema_category
                  ''Key UI/UX design philosophies, methodologies, or libraries relevant to modern AI builders.''
                  (schema_items
                     ''The name of the principle or library (e.g., Atomic Design, Shadcn UI).''
                     ''A concise 1-2 sentence summary of why this resource is valuable for the project.''
                     True)),
               (''uiFrameworks'', schema_category
                  ''Recommended modern component libraries, styling utilities, or frameworks for rapid UI development.''
                  (schema_items
                     ''The name of the framework or tool (e.g., React, Svelte, Tailwind CSS).''
                     ''A concise 1-2 sentence summary of why this resource is valuable for the project.''
                     True)),
               (''aiApiConcepts'', schema_category
                  ''Concepts or specific API use cases for integrating the AI model (Gemini) into the builder workflow.''
                  (schema_items
                     ''The name of the concept or API (e.g., Function Calling, Latent Space Image Generation).''
                     ''A concise 1-2 sentence summary of how this concept can be applied to the website builder.''
                     ai_required))]),
           (''required'', JArr [JStr ''designPrinciples'', JStr ''uiFrameworks'', JStr ''aiApiConcepts''])]"

text \<open>\<open>RESPONSE_SCHEMA\<close> of \<open>research.py\<close> and of \<open>netlify/functions/research.py\<close>.\<close>

definition RESPONSE_SCHEMA :: json where
  "RESPONSE_SCHEMA = response_schema True"

definition RESPONSE_SCHEMA_netlify :: json where
  "RESPONSE_SCHEMA_netlify = response_schema False"

section \<open>The handler\<close>

text \<open>The value the handler returns; only the success response carries headers.\<close>

record http_result =
  statusCode :: int
  headers :: "(string \<times> string) list option"
  body :: string

text \<open>An error response: \<open>{"statusCode": code, "body": json.dumps(obj)}\<close>.\<close>

definition error_result :: "env \<Rightarrow> int \<Rightarrow> json \<Rightarrow> http_result" where
  "error_result env code obj = \<lparr>statusCode = code, headers = None, body = json_dumps env obj\<rparr>"

text \<open>Step 3: the payload sent upstream.\<close>

definition payload :: "json \<Rightarrow> json \<Rightarrow> json" where
  "payload schema user_prompt =
     JObj [(''contents'', JArr [JObj [(''parts'', JArr [JObj [(''text'', user_prompt)]])]]),
           (''tools'', JArr [JObj [(''google_search'', JObj [])]]),
           (''systemInstruction'', JObj [(''parts'', JArr [JObj [(''text'', JStr SYSTEM_PROMPT)]])]),
           (''generationConfig'', JObj
              [(''responseMimeType'', JStr ''application/json''),
               (''responseSchema'', schema)])]"

text \<open>Step 4: the one call of \<open>requests.post\<close>.\<close>

definition gemini_request :: "env \<Rightarrow> string option \<Rightarrow> json \<Rightarrow> json \<Rightarrow> request" where
  "gemini_request env key schema user_prompt =
     \<lparr>req_url = API_URL key,
      req_headers = [(''Content-Type'', ''application/json'')],
      req_data = json_dumps env (payload schema user_prompt),
      req_timeout = 30\<rparr>"

text \<open>
  The loop over the attributions. An attribution is kept when its \<open>web\<close> is true and
  the \<open>uri\<close> of that is true; the title defaults when the key is absent. An exception
  in the body of the loop ends it.
\<close>

fun collect_sources :: "json list \<Rightarrow> json list \<Rightarrow> exn + json list" where
  "collect_sources [] sources = Inr sources"
| "collect_sources (attribution # rest) sources =
     (case py_get attribution ''web'' JNull of
        Inl e \<Rightarrow> Inl e
      | Inr web \<Rightarrow>
          if truthy web then
            (case py_get web ''uri'' JNull of
               Inl e \<Rightarrow> Inl e
             | Inr uri \<Rightarrow>
                 if truthy uri then
                   (case py_get web ''title'' (JStr ''No Title Available'') of
                      Inl e \<Rightarrow> Inl e
                    | Inr title \<Rightarrow>
                        collect_sources rest (sources @ [JObj [(''uri'', uri), (''title'', title)]]))
                 else collect_sources rest sources)
          else collect_sources rest sources)"

text \<open>
  The citation step: \<open>sources = []\<close>, then the loop when \<open>grounding_metadata\<close> and its
  \<open>groundingAttributions\<close> are both true.
\<close>

definition extract_sources :: "json \<Rightarrow> exn + json list" where
  "extract_sources grounding_metadata =
     (if truthy grounding_metadata then
        (case py_get grounding_metadata ''groundingAttributions'' JNull of
           Inl e \<Rightarrow> Inl e
         | Inr attributions \<Rightarrow>
             if truthy attributions then
               (case py_iter attributions of
                  Inl e \<Rightarrow> Inl e
                | Inr items \<Rightarrow> collect_sources items [])
             else Inr [])
      else Inr [])"

text \<open>Steps 5 and 6: from the decoded upstream body to the response.\<close>

definition process_result :: "env \<Rightarrow> json \<Rightarrow> exn + http_result" where
  "process_result env result =
     (case py_get result ''candidates'' (JArr [JObj []]) of
        Inl e \<Rightarrow> Inl e
      | Inr candidates \<Rightarrow>
     (case py_index0 candidates of
        Inl e \<Rightarrow> Inl e
      | Inr candidate \<Rightarrow>
     if \<not> truthy candidate then
       Inr (error_result env 500
              (JObj [(''error'', JStr ''Gemini API returned an empty candidate list.'')]))
     else
     (case py_get candidate ''content'' (JObj []) of
        Inl e \<Rightarrow> Inl e
      | Inr content \<Rightarrow>
     (case py_get content ''parts'' (JArr [JObj []]) of
        Inl e \<Rightarrow> Inl e
      | Inr parts \<Rightarrow>
     (case py_index0 parts of
        Inl e \<Rightarrow> Inl e
      | Inr part \<Rightarrow>
     (case py_get part ''text'' JNull of
        Inl e \<Rightarrow> Inl e
      | Inr json_text \<Rightarrow>
     (case py_get candidate ''groundingMetadata'' (JObj []) of
        Inl e \<Rightarrow> Inl e
      | Inr grounding_metadata \<Rightarrow>
     if \<not> truthy json_text then
       Inr (error_result env 500
              (JObj [(''error'', JStr ''Gemini API failed to return structured JSON content.'')]))
     else
     (case py_json_loads env json_text of
        Inl e \<Rightarrow> Inl e
      | Inr research_data \<Rightarrow>
     (case extract_sources grounding_metadata of
        Inl e \<Rightarrow> Inl e
      | Inr sources \<Rightarrow>
          Inr \<lparr>statusCode = 200,
               headers = Some [(''Content-Type'', ''application/json'')],
               body = json_dumps env
                        (JObj [(''research'', research_data), (''sources'', JArr sources)])\<rparr>)))))))))"

text \<open>
  The \<open>try\<close> block, steps 2 to 6. It returns the response or the exception raised,
  and the list of the calls of \<open>requests.post\<close> it made. The event is the dict the
  hosting runtime passes; its values are arbitrary, so a \<open>body\<close> that is not a string
  is covered. The block is the same in both copies but for the schema in the payload.
\<close>

definition try_block ::
  "env \<Rightarrow> string option \<Rightarrow> json \<Rightarrow> (string \<times> json) list \<Rightarrow> (exn + http_result) \<times> request list" where
  "try_block env key schema event =
     (if truthy (dict_get event ''body'' JNull) then
        (case py_json_loads env (dict_get event ''body'' JNull) of
           Inl e \<Rightarrow> (Inl e, [])
         | Inr data \<Rightarrow>
        (case py_get data ''prompt'' JNull of
           Inl e \<Rightarrow> (Inl e, [])
         | Inr user_prompt \<Rightarrow>
        (case requests_post env (gemini_request env key schema user_prompt) of
           Inl e \<Rightarrow> (Inl e, [gemini_request env key schema user_prompt])
         | Inr response \<Rightarrow>
        (case raise_for_status response of
           Inl e \<Rightarrow> (Inl e, [gemini_request env key schema user_prompt])
         | Inr u \<Rightarrow>
        (case json_result response of
           Inl e \<Rightarrow> (Inl e, [gemini_request env key schema user_prompt])
         | Inr result \<Rightarrow>
             (process_result env result, [gemini_request env key schema user_prompt]))))))
      else
        (Inr (error_result env 400 (JObj [(''error'', JStr ''Missing prompt in request data.'')])), []))"

text \<open>The \<open>except\<close> clauses of \<open>research.py\<close>, in their order.\<close>

definition except_clauses :: "env \<Rightarrow> exn \<Rightarrow> http_result" where
  "except_clauses env e =
     (if is_Timeout (exn_class e) then
        error_result env 504 (JObj [(''error'', JStr ''The AI research request timed out.'')])
      else if is_RequestException (exn_class e) then
        error_result env 500
          (JObj [(''error'', JStr (''Failed to communicate with the Gemini API: '' @ str_exn e)),
                 (''details'', JStr (str_exn e))])
      else if is_JSONDecodeError (exn_class e) then
        error_result env 500
          (JObj [(''error'', JStr ''Failed to parse JSON response from AI model. Check prompt/schema alignment.'')])
      else
        error_result env 500
          (JObj [(''error'', JStr (''An unexpected server error occurred: '' @ str_exn e)),
                 (''details'', JStr (str_exn e))]))"

text \<open>The single \<open>except Exception\<close> clause of \<open>netlify/functions/research.py\<close>.\<close>

definition except_clauses_netlify :: "env \<Rightarrow> exn \<Rightarrow> http_result" where
  "except_clauses_netlify env e =
     error_result env 500
       (JObj [(''error'', JStr (''An unexpected server error occurred: '' @ str_exn e)),
              (''details'', JStr (str_exn e))])"

text \<open>\<open>not GEMINI_API_KEY\<close>: the variable is unset or empty.\<close>

definition key_missing :: "string option \<Rightarrow> bool" where
  "key_missing key = (case key of None \<Rightarrow> True | Some k \<Rightarrow> k = [])"

text \<open>
  \<open>handler\<close> of \<open>research.py\<close>: the response, and the calls of \<open>requests.post\<close> made
  on the way.
\<close>

definition handler :: "env \<Rightarrow> string option \<Rightarrow> (string \<times> json) list \<Rightarrow> http_result \<times> request list" where
  "handler env key event =
     (if key_missing key then
        (error_result env 500
           (JObj [(''error'', JStr ''Server API Key is missing. Set GEMINI_API_KEY environment variable.'')]), [])
      else
        (case try_block env key RESPONSE_SCHEMA event of
           (Inr r, calls) \<Rightarrow> (r, calls)
         | (Inl e, calls) \<Rightarrow> (except_clauses env e, calls)))"

text \<open>
  \<open>handler\<close> of \<open>netlify/functions/research.py\<close>, as the text of the function
  reads. The file as shipped carries page markup after the last \<open>return\<close> statement
  of the function, so Python does not load it as a module; this is the function once
  that markup is cut off.
\<close>

definition handler_netlify :: "env \<Rightarrow> string option \<Rightarrow> (string \<times> json) list \<Rightarrow> http_result \<times> request list" where
  "handler_netlify env key event =
     (if key_missing key then
        (error_result env 500
           (JObj [(''error'', JStr ''Server API Key is missing. Set GEMINI_API_KEY environment variable in Netlify.'')]), [])
      else
        (case try_block env key RESPONSE_SCHEMA_netlify event of
           (Inr r, calls) \<Rightarrow> (r, calls)
         | (Inl e, calls) \<Rightarrow> (except_clauses_netlify env e, calls)))"

section \<open>JSON texts\<close>

text \<open>
  The grammar of RFC 8259 as a scanner over the characters of a text, to say what a
  valid JSON string is. It keeps the kind of each open array or object on a stack and
  reads one character at a time.
\<close>

datatype frame = InArray | InObject

datatype scan_state =
    SValue | SArrayStart | SObjectStart | SKey | SColon | SAfter
  | SString bool | SEscape bool | SHex bool nat
  | SLiteral string
  | SMinus | SZero | SInt | SDot | SFrac | SExpMark | SExpSign | SExp

text \<open>
  The four whitespace characters, the decimal digits and the hexadecimal digits of
  the grammar.
\<close>

definition is_ws :: "char \<Rightarrow> bool" where
  "is_ws c = (c \<in> set [CHR 0x20, CHR 0x09, CHR 0x0A, CHR 0x0D])"

definition is_digit :: "char \<Rightarrow> bool" where
  "is_digit c = (c \<in> set ''0123456789'')"

definition is_hex :: "char \<Rightarrow> bool" where
  "is_hex c = (c \<in> set ''0123456789abcdefABCDEF'')"

text \<open>
  A closing bracket or brace ends the innermost open array or object, which has to
  be of its kind.
\<close>

definition close_frame :: "frame \<Rightarrow> frame list \<Rightarrow> (scan_state \<times> frame list) option" where
  "close_frame f stk = (case stk of [] \<Rightarrow> None | g # rest \<Rightarrow> if g = f then Some (SAfter, rest) else None)"

text \<open>
  After a complete value: whitespace, a comma inside an array or object, or the
  closing bracket or brace.
\<close>

definition after_step :: "frame list \<Rightarrow> char \<Rightarrow> (scan_state \<times> frame list) option" where
  "after_step stk c =
     (if is_ws c then Some (SAfter, stk)
      else if c = CHR '','' then
        (case stk of [] \<Rightarrow> None | InArray # rest \<Rightarrow> Some (SValue, stk) | InObject # rest \<Rightarrow> Some (SKey, stk))
      else if c = CHR '']'' then close_frame InArray stk
      else if c = CHR ''}'' then close_frame InObject stk
      else None)"

text \<open>
  The first character of a value: a string, an object, an array, a number or one of
  the three literal names.
\<close>

definition value_step :: "frame list \<Rightarrow> char \<Rightarrow> (scan_state \<times> frame list) option" where
  "value_step stk c =
     (if c = CHR 0x22 then Some (SString False, stk)
      else if c = CHR ''{'' then Some (SObjectStart, InObject # stk)
      else if c = CHR ''['' then Some (SArrayStart, InArray # stk)
      else if c = CHR ''-'' then Some (SMinus, stk)
      else if c = CHR ''0'' then Some (SZero, stk)
      else if is_digit c then Some (SInt, stk)
      else if c = CHR ''t'' then Some (SLiteral ''rue'', stk)
      else if c = CHR ''f'' then Some (SLiteral ''alse'', stk)
      else if c = CHR ''n'' then Some (SLiteral ''ull'', stk)
      else None)"

text \<open>
  One character in each state. A string takes every character from \<open>0x20\<close> on
  but the quote and the backslash; an escape is one of \<open>" \ / b f n r t\<close> or \<open>u\<close>
  and four hexadecimal digits. A number is an optional minus, a zero or a digit from
  1 to 9 and further digits, an optional fraction and an optional exponent; where a
  number may end, the character is read as after a value.
\<close>

fun step :: "scan_state \<Rightarrow> frame list \<Rightarrow> char \<Rightarrow> (scan_state \<times> frame list) option" where
  "step SValue stk c = (if is_ws c then Some (SValue, stk) else value_step stk c)"
| "step SArrayStart stk c =
     (if is_ws c then Some (SArrayStart, stk)
      else if c = CHR '']'' then close_frame InArray stk
      else value_step stk c)"
| "step SObjectStart stk c =
     (if is_ws c then Some (SObjectStart, stk)
      else if c = CHR ''}'' then close_frame InObject stk
      else if c = CHR 0x22 then Some (SString True, stk)
      else None)"
| "step SKey stk c =
     (if is_ws c then Some (SKey, stk)
      else if c = CHR 0x22 then Some (SString True, stk)
      else None)"
| "step SColon stk c =
     (if is_ws c then Some (SColon, stk)
      else if c = CHR '':'' then Some (SValue, stk)
      else None)"
| "step SAfter stk c = after_step stk c"
| "step (SString k) stk c =
     (if c = CHR 0x22 then Some (if k then SColon else SAfter, stk)
      else if c = CHR 0x5C then Some (SEscape k, stk)
      else if (of_char c :: nat) < 32 then None
      else Some (SString k, stk))"
| "step (SEscape k) stk c =
     (if c \<in> set [CHR 0x22, CHR 0x5C, CHR ''/'', CHR ''b'', CHR ''f'', CHR ''n'', CHR ''r'', CHR ''t'']
      then Some (SString k, stk)
      else if c = CHR ''u'' then Some (SHex k 4, stk)
      else None)"
| "step (SHex k n) stk c =
     (if is_hex c then Some (if n \<le> 1 then SString k else SHex k (n - 1), stk) else None)"
| "step (SLiteral rest) stk c =
     (case rest of
        [] \<Rightarrow> None
      | r # rs \<Rightarrow> if c = r then Some (if rs = [] then SAfter else SLiteral rs, stk) else None)"
| "step SMinus stk c =
     (if c = CHR ''0'' then Some (SZero, stk)
      else if is_digit c then Some (SInt, stk)
      else None)"
| "step SZero stk c =
     (if c = CHR ''.'' then Some (SDot, stk)
      else if c = CHR ''e'' \<or> c = CHR ''E'' then Some (SExpMark, stk)
      else after_step stk c)"
| "step SInt stk c =
     (if is_digit c then Some (SInt, stk)
      else if c = CHR ''.'' then Some (SDot, stk)
      else if c = CHR ''e'' \<or> c = CHR ''E'' then Some (SExpMark, stk)
      else after_step stk c)"
| "step SDot stk c = (if is_digit c then Some (SFrac, stk) else None)"
| "step SFrac stk c =
     (if is_digit c then Some (SFrac, stk)
      else if c = CHR ''e'' \<or> c = CHR ''E'' then Some (SExpMark, stk)
      else after_step stk c)"
| "step SExpMark stk c =
     (if c = CHR ''+'' \<or> c = CHR ''-'' then Some (SExpSign, stk)
      else if is_digit c then Some (SExp, stk)
      else None)"
| "step SExpSign stk c = (if is_digit c then Some (SExp, stk) else None)"
| "step SExp stk c = (if is_digit c then Some (SExp, stk) else after_step stk c)"

fun run :: "(scan_state \<times> frame list) option \<Rightarrow> string \<Rightarrow> (scan_state \<times> frame list) option" where
  "run conf [] = conf"
| "run conf (c # cs) = run (case conf of None \<Rightarrow> None | Some (q, stk) \<Rightarrow> step q stk c) cs"

text \<open>
  The states in which a value is complete, and the texts of the grammar: one value,
  with whitespace around it, and nothing left open.
\<close>

definition ends_value :: "scan_state \<Rightarrow> bool" where
  "ends_value q = (q \<in> set [SAfter, SZero, SInt, SFrac, SExp])"



text \<open>
  The fields of a float: sign, biased exponent, fraction. A float with all exponent
  bits set is an infinity (fraction zero) or a NaN.
\<close>

definition float_exponent :: "64 word \<Rightarrow> nat" where
  "float_exponent w = unat (drop_bit 52 w) mod 2048"

definition float_fraction :: "64 word \<Rightarrow> nat" where
  "float_fraction w = unat w mod 2 ^ 52"

definition float_negative :: "64 word \<Rightarrow> bool" where
  "float_negative w = bit w 63"

definition nonfinite :: "64 word \<Rightarrow> bool" where
  "nonfinite w = (float_exponent w = 2047)"


section \<open>Stand-ins for the libraries, for the worked examples\<close>

text \<open>The decimal digits of a natural number.\<close>

function dec_nat :: "nat \<Rightarrow> string" where
  "dec_nat n = (if n < 10 then [''0123456789'' ! n] else dec_nat (n div 10) @ [''0123456789'' ! (n mod 10)])"
  by pat_completeness auto
termination
  by (relation "measure (\<lambda>n. n)") auto

declare dec_nat.simps [simp del]

text \<open>\<open>sep.join(xs)\<close>\<close>

fun join :: "string \<Rightarrow> string list \<Rightarrow> string" where
  "join sep [] = []"
| "join sep [x] = x"
| "join sep (x # y # ys) = x @ sep @ join sep (y # ys)"

text \<open>
  A serialiser standing in for \<open>json.dumps\<close> in the examples, with the separators
  \<open>", "\<close> and \<open>": "\<close>. A string is written as \<open>json.dumps\<close> writes it with
  \<open>ensure_ascii\<close>: the quote, the backslash and the control characters with a short
  form are escaped with a backslash, every other character outside \<open>0x20\<close> to
  \<open>0x7E\<close> as \<open>\u00XX\<close>.
\<close>

definition hex_digit :: "nat \<Rightarrow> char" where
  "hex_digit i = ''0123456789abcdef'' ! i"

definition escape_char :: "char \<Rightarrow> string" where
  "escape_char c =
     (if c = CHR 0x22 then [CHR 0x5C, CHR 0x22]
      else if c = CHR 0x5C then [CHR 0x5C, CHR 0x5C]
      else if c = CHR 0x0A then [CHR 0x5C, CHR ''n'']
      else if c = CHR 0x0D then [CHR 0x5C, CHR ''r'']
      else if c = CHR 0x09 then [CHR 0x5C, CHR ''t'']
      else if c = CHR 0x0C then [CHR 0x5C, CHR ''f'']
      else if c = CHR 0x08 then [CHR 0x5C, CHR ''b'']
      else if (of_char c :: nat) < 32 \<or> 126 < (of_char c :: nat) then
        [CHR 0x5C, CHR ''u'', CHR ''0'', CHR ''0'',
         hex_digit (of_char c div 16), hex_digit (of_char c mod 16)]
      else [c])"

definition dumps_str :: "string \<Rightarrow> string" where
  "dumps_str s = [CHR 0x22] @ concat (map escape_char s) @ [CHR 0x22]"

text \<open>
  A float: \<open>NaN\<close>, \<open>Infinity\<close> and \<open>-Infinity\<close> as \<open>json.dumps\<close> writes them.
  A finite float is written as its exact decimal expansion, which denotes the same
  number as the shortest representation \<open>json.dumps\<close> writes: the value is
  \<open>m / 2^k\<close> = \<open>m * 5^k / 10^k\<close>, or an integer followed by \<open>.0\<close>.
\<close>

definition exact_decimal :: "nat \<Rightarrow> nat \<Rightarrow> string" where
  "exact_decimal m k =
     dec_nat (m * 5 ^ k div 10 ^ k) @ ''.''
       @ replicate (k - length (dec_nat (m * 5 ^ k mod 10 ^ k))) (CHR ''0'')
       @ dec_nat (m * 5 ^ k mod 10 ^ k)"

definition finite_float_repr :: "64 word \<Rightarrow> string" where
  "finite_float_repr w =
     (if float_negative w then ''-'' else [])
       @ (if float_exponent w = 0 then exact_decimal (float_fraction w) 1074
          else if float_exponent w < 1075
            then exact_decimal (2 ^ 52 + float_fraction w) (1075 - float_exponent w)
          else dec_nat ((2 ^ 52 + float_fraction w) * 2 ^ (float_exponent w - 1075)) @ ''.0'')"

definition dumps_float :: "64 word \<Rightarrow> string" where
  "dumps_float w =
     (if nonfinite w then
        (if float_fraction w \<noteq> 0 then ''NaN''
         else if float_negative w then ''-Infinity'' else ''Infinity'')
      else finite_float_repr w)"

fun example_dumps :: "json \<Rightarrow> string" where
  "example_dumps JNull = ''null''"
| "example_dumps (JBool b) = (if b then ''true'' else ''false'')"
| "example_dumps (JInt i) = (if i < 0 then ''-'' @ dec_nat (nat (- i)) else dec_nat (nat i))"
| "example_dumps (JFloat w) = dumps_float w"
| "example_dumps (JStr s) = dumps_str s"
| "example_dumps (JArr xs) = ''['' @ join '', '' (map example_dumps xs) @ '']''"
| "example_dumps (JObj d) =
     ''{'' @ join '', '' (map (\<lambda>kv. dumps_str (fst kv) @ '': '' @ example_dumps (snd kv)) d) @ ''}''"

text \<open>
  A decoder standing in for \<open>json.loads\<close> in the examples: it decodes the texts of a
  table, each paired with the value \<open>json.loads\<close> gives for it, and raises
  \<open>JSONDecodeError\<close> on every other text.
\<close>

definition example_loads :: "(string \<times> json) list \<Rightarrow> string \<Rightarrow> exn + json" where
  "example_loads table s =
     (case map_of table s of
        Some v \<Rightarrow> Inr v
      | None \<Rightarrow> Inl (Exn JSONDecodeError ''Expecting value: line 1 column 1 (char 0)''))"

text \<open>A stubbed transport: every call of \<open>requests.post\<close> has the same outcome.\<close>

definition example_env :: "(string \<times> json) list \<Rightarrow> exn + response \<Rightarrow> env" where
  "example_env table upstream =
     \<lparr>json_loads = example_loads table, json_dumps = example_dumps, requests_post = (\<lambda>req. upstream)\<rparr>"

text \<open>An upstream answer with status 200 whose body decodes to \<open>result\<close>.\<close>

definition upstream_ok :: "json \<Rightarrow> exn + response" where
  "upstream_ok result = Inr \<lparr>status_code = 200, http_error_msg = [], json_result = Inr result\<rparr>"

text \<open>
  An upstream body with one candidate that carries the structured text and, beside
  its \<open>content\<close>, the given further keys.
\<close>

definition candidate_with :: "string \<Rightarrow> (string \<times> json) list \<Rightarrow> json" where
  "candidate_with text extra =
     JObj [(''candidates'', JArr [JObj ((''content'', JObj [(''parts'', JArr [JObj [(''text'', JStr text)]])]) # extra)])]"

text \<open>The texts of the examples and what \<open>json.loads\<close> gives for them.\<close>

definition research_text :: string where
  \<open>research_text = ''{"designPrinciples":[],"uiFrameworks":[],"aiApiConcepts":[]}''\<close>

definition research_value :: json where
  "research_value = JObj [(''designPrinciples'', JArr []), (''uiFrameworks'', JArr []), (''aiApiConcepts'', JArr [])]"

definition prompt_text :: string where
  \<open>prompt_text = ''{"prompt": "modern UI"}''\<close>

definition prompt_value :: json where
  "prompt_value = JObj [(''prompt'', JStr ''modern UI'')]"

definition blank_prompt_text :: string where
  \<open>blank_prompt_text = ''{"prompt": "   "}''\<close>

definition blank_prompt_value :: json where
  "blank_prompt_value = JObj [(''prompt'', JStr ''   '')]"

definition example_table :: "(string \<times> json) list" where
  "example_table =
     [(prompt_text, prompt_value), (blank_prompt_text, blank_prompt_value), (research_text, research_value)]"



text \<open>
  Four attributions: one with a uri and a title, one without \<open>web\<close>, one with a
  uri and no title, one whose \<open>web\<close> has no uri.
\<close>

definition example_attributions :: json where
  "example_attributions =
     JArr [JObj [(''web'', JObj [(''uri'', JStr ''https://a.example/x''), (''title'', JStr ''A'')])],
           JObj [(''segment'', JObj [])],
           JObj [(''web'', JObj [(''uri'', JStr ''https://b.example/y'')])],
           JObj [(''web'', JObj [(''title'', JStr ''no uri'')])]]"

section \<open>The citation step, as the specification describes it\<close>

text \<open>
  The words of the specification about citations, as functions of an attribution, to
  compare the loop of the handler with. \<open>attribution_web\<close> is the nested \<open>web\<close> of
  an attribution (\<open>None\<close> when it is absent).
\<close>

definition attribution_web :: "json \<Rightarrow> json" where
  "attribution_web a = (case a of JObj d \<Rightarrow> dict_get d ''web'' JNull | _ \<Rightarrow> JNull)"

text \<open>
  An attribution the loop can read: a dict whose \<open>web\<close> is a dict, or is absent
  or otherwise false. On any other attribution the loop raises.
\<close>

definition attribution_shaped :: "json \<Rightarrow> bool" where
  "attribution_shaped a =
     (case a of
        JObj d \<Rightarrow> (case dict_get d ''web'' JNull of JObj w \<Rightarrow> True | v \<Rightarrow> \<not> truthy v)
      | _ \<Rightarrow> False)"

text \<open>
  An attribution is kept when its \<open>web.uri\<close> is true: present, and neither
  \<open>None\<close> nor empty nor zero.
\<close>

definition attribution_kept :: "json \<Rightarrow> bool" where
  "attribution_kept a =
     (case attribution_web a of JObj w \<Rightarrow> truthy (dict_get w ''uri'' JNull) | _ \<Rightarrow> False)"

text \<open>
  The entry of \<open>sources\<close> made from a kept attribution; the title is the
  placeholder when \<open>web\<close> has no \<open>title\<close> key.
\<close>

definition source_entry :: "json \<Rightarrow> json" where
  "source_entry a =
     (case attribution_web a of
        JObj w \<Rightarrow> JObj [(''uri'', dict_get w ''uri'' JNull),
                         (''title'', dict_get w ''title'' (JStr ''No Title Available''))]
      | _ \<Rightarrow> JNull)"

text \<open>
  The attribution has a \<open>web\<close> that has a \<open>uri\<close> key, whatever its value.
\<close>

definition uri_present :: "json \<Rightarrow> bool" where
  "uri_present a =
     (case a of
        JObj d \<Rightarrow> (case map_of d ''web'' of Some (JObj w) \<Rightarrow> map_of w ''uri'' \<noteq> None | _ \<Rightarrow> False)
      | _ \<Rightarrow> False)"

text \<open>
  The list at \<open>candidate.groundingMetadata.groundingAttributions\<close>, empty when
  either key is absent.
\<close>

definition grounding_attributions :: "(string \<times> json) list \<Rightarrow> json list" where
  "grounding_attributions candidate =
     (case map_of candidate ''groundingMetadata'' of
        Some (JObj gm) \<Rightarrow>
          (case map_of gm ''groundingAttributions'' of Some (JArr atts) \<Rightarrow> atts | _ \<Rightarrow> [])
      | _ \<Rightarrow> [])"

text \<open>
  The grounding data of a candidate is absent, or a dict without attributions, or a
  dict whose attributions are a list of attributions the loop can read.
\<close>

definition grounding_shaped :: "(string \<times> json) list \<Rightarrow> bool" where
  "grounding_shaped candidate =
     (case map_of candidate ''groundingMetadata'' of
        None \<Rightarrow> True
      | Some (JObj gm) \<Rightarrow>
          (case map_of gm ''groundingAttributions'' of
             None \<Rightarrow> True
           | Some (JArr atts) \<Rightarrow> list_all attribution_shaped atts
           | Some v \<Rightarrow> False)
      | Some v \<Rightarrow> False)"

section \<open>Basic facts\<close>

lemma statusCode_error_result [simp]: "statusCode (error_result env c v) = c"
  by (simp add: error_result_def)

lemma body_error_result [simp]: "body (error_result env c v) = json_dumps env v"
  by (simp add: error_result_def)

lemma example_env_sel [simp]:
  "json_loads (example_env table upstream) = example_loads table"
  "json_dumps (example_env table upstream) = example_dumps"
  "requests_post (example_env table upstream) req = upstream"
  by (simp_all add: example_env_def)

lemma example_loads_table [simp]:
  "example_loads example_table prompt_text = Inr prompt_value"
  "example_loads example_table blank_prompt_text = Inr blank_prompt_value"
  "example_loads example_table research_text = Inr research_value"
  "example_loads example_table ''not json'' = Inl (Exn JSONDecodeError ''Expecting value: line 1 column 1 (char 0)'')"
  by (simp_all add: example_loads_def example_table_def prompt_text_def blank_prompt_text_def research_text_def)

lemma texts_nonempty [simp]: "prompt_text \<noteq> []" "blank_prompt_text \<noteq> []" "research_text \<noteq> []"
  by (simp_all add: prompt_text_def blank_prompt_text_def research_text_def)

lemma key_missing_Some [simp]: "key_missing (Some k) = (k = [])"
  by (simp add: key_missing_def)

lemma key_missing_None [simp]: "key_missing None"
  by (simp add: key_missing_def)

lemma try_block_no_body:
  "\<not> truthy (dict_get event ''body'' JNull) \<Longrightarrow>
     try_block env key schema event =
       (Inr (error_result env 400 (JObj [(''error'', JStr ''Missing prompt in request data.'')])), [])"
  by (simp add: try_block_def)

lemma try_block_upstream:
  assumes "dict_get event ''body'' JNull = JStr s" and "s \<noteq> []"
    and "json_loads env s = Inr (JObj d)"
    and "requests_post env (gemini_request env key schema (dict_get d ''prompt'' JNull)) = Inr resp"
    and "\<not> (400 \<le> status_code resp \<and> status_code resp < 600)"
  shows "try_block env key schema event =
           ((case json_result resp of Inl e \<Rightarrow> Inl e | Inr result \<Rightarrow> process_result env result),
            [gemini_request env key schema (dict_get d ''prompt'' JNull)])"
proof -
  from assms(5) have "raise_for_status resp = Inr ()"
    unfolding raise_for_status_def by (rule if_not_P)
  with assms(1-4) show ?thesis
    by (simp add: try_block_def py_json_loads_def split: sum.splits)
qed


lemma try_block_bad_body:
  assumes "dict_get event ''body'' JNull = JStr s" and "s \<noteq> []"
    and "json_loads env s = Inl e"
  shows "try_block env key schema event = (Inl e, [])"
  using assms
  by (simp add: try_block_def py_json_loads_def)

section \<open>The shape of every response\<close>

lemma dict_get_simps [simp]:
  "dict_get [] k dflt = dflt"
  "dict_get ((k', v) # d) k dflt = (if k' = k then v else dict_get d k dflt)"
  by (simp_all add: dict_get_def)




section \<open>The handler by cases\<close>

lemma handler_cases:
  "handler env key event =
     (if key_missing key then
        (error_result env 500
           (JObj [(''error'', JStr ''Server API Key is missing. Set GEMINI_API_KEY environment variable.'')]), [])
      else (case fst (try_block env key RESPONSE_SCHEMA event) of
              Inr r \<Rightarrow> r | Inl e \<Rightarrow> except_clauses env e,
            snd (try_block env key RESPONSE_SCHEMA event)))"
  by (cases "try_block env key RESPONSE_SCHEMA event")
     (auto simp: handler_def split: sum.splits)

lemma handler_netlify_cases:
  "handler_netlify env key event =
     (if key_missing key then
        (error_result env 500
           (JObj [(''error'', JStr ''Server API Key is missing. Set GEMINI_API_KEY environment variable in Netlify.'')]), [])
      else (case fst (try_block env key RESPONSE_SCHEMA_netlify event) of
              Inr r \<Rightarrow> r | Inl e \<Rightarrow> except_clauses_netlify env e,
            snd (try_block env key RESPONSE_SCHEMA_netlify event)))"
  by (cases "try_block env key RESPONSE_SCHEMA_netlify event")
     (auto simp: handler_netlify_def split: sum.splits)

section \<open>The loop over the attributions\<close>

lemma collect_sources_shaped:
  "list_all attribution_shaped atts \<Longrightarrow>
     collect_sources atts acc = Inr (acc @ map source_entry (filter attribution_kept atts))"
proof (induction atts arbitrary: acc)
  case Nil
  show ?case by simp
next
  case (Cons a atts)
  from Cons.prems have sh: "attribution_shaped a" and rest: "list_all attribution_shaped atts"
    by simp_all
  from sh obtain d where a: "a = JObj d"
    by (cases a) (simp_all add: attribution_shaped_def)
  show ?case
  proof (cases "dict_get d ''web'' JNull")
    case (JObj w)
    with a Cons.IH [OF rest] show ?thesis
      by (cases w) (simp_all add: attribution_kept_def attribution_web_def source_entry_def)
  qed (use a sh Cons.IH [OF rest] in
        \<open>simp_all add: attribution_shaped_def attribution_kept_def attribution_web_def\<close>)
qed

lemma extract_sources_shaped:
  assumes "grounding_shaped candidate"
  shows "extract_sources (dict_get candidate ''groundingMetadata'' (JObj [])) =
           Inr (map source_entry (filter attribution_kept (grounding_attributions candidate)))"
proof (cases "map_of candidate ''groundingMetadata''")
  case None
  then show ?thesis
    by (simp add: dict_get_def extract_sources_def grounding_attributions_def)
next
  case (Some g)
  with assms obtain gm where g: "g = JObj gm"
    by (cases g) (simp_all add: grounding_shaped_def)
  show ?thesis
  proof (cases "map_of gm ''groundingAttributions''")
    case None
    with Some g show ?thesis
      by (simp add: dict_get_def extract_sources_def grounding_attributions_def)
  next
    case (Some v)
    note v = Some
    with assms \<open>map_of candidate ''groundingMetadata'' = Some g\<close> g
    obtain atts where atts: "v = JArr atts" and sh: "list_all attribution_shaped atts"
      by (cases v) (simp_all add: grounding_shaped_def)
    have gmne: "gm \<noteq> []" using v by auto
    from \<open>map_of candidate ''groundingMetadata'' = Some g\<close> g v atts gmne
      collect_sources_shaped [OF sh, of "[]"]
    show ?thesis
      by (cases atts) (simp_all add: dict_get_def extract_sources_def grounding_attributions_def)
  qed
qed

lemma process_result_well_formed:
  assumes "map_of result ''candidates'' = Some (JArr (JObj candidate # others))"
    and "map_of candidate ''content'' = Some (JObj content)"
    and "map_of content ''parts'' = Some (JArr (JObj part # more_parts))"
    and "map_of part ''text'' = Some (JStr t)" and "t \<noteq> []"
  shows "process_result env (JObj result) =
           (case json_loads env t of
              Inl e \<Rightarrow> Inl e
            | Inr research_data \<Rightarrow>
                (case extract_sources (dict_get candidate ''groundingMetadata'' (JObj [])) of
                   Inl e \<Rightarrow> Inl e
                 | Inr sources \<Rightarrow>
                     Inr \<lparr>statusCode = 200,
                          headers = Some [(''Content-Type'', ''application/json'')],
                          body = json_dumps env
                                   (JObj [(''research'', research_data), (''sources'', JArr sources)])\<rparr>))"
proof -
  from assms(2) have "candidate \<noteq> []" by auto
  with assms show ?thesis
    by (simp add: process_result_def dict_get_def py_json_loads_def split: sum.splits)
qed

section \<open>The serialiser of the examples writes JSON texts\<close>

lemma run_None [simp]: "run None s = None"
  by (induction s) simp_all








lemma run_int_digits: "list_all is_digit ds \<Longrightarrow> run (Some (SInt, stk)) ds = Some (SInt, stk)"
  by (induction ds) simp_all






















lemma ends_value_simps [simp]:
  "ends_value SAfter" "ends_value SZero" "ends_value SInt" "ends_value SFrac"
  by (simp_all add: ends_value_def)








section \<open>No NaN and no infinity comes from nowhere\<close>















section \<open>The claims\<close>

text \<open>
  Claim C1 says that a request whose prompt is missing, empty or only whitespace gets
  status 400 and that no upstream call is made. The handler tests the \<open>body\<close> of the
  event and nothing else: with the body \<open>{"prompt": "   "}\<close> it calls
  \<open>requests.post\<close> once, with the blank prompt in the payload, and relays the answer
  with status 200.
\<close>

theorem blank_prompt_counterexample:
  "handler (example_env example_table (upstream_ok (candidate_with research_text [])))
       (Some ''secret'') [(''body'', JStr blank_prompt_text)] =
     (\<lparr>statusCode = 200,
       headers = Some [(''Content-Type'', ''application/json'')],
       body = example_dumps (JObj [(''research'', research_value), (''sources'', JArr [])])\<rparr>,
      [gemini_request (example_env example_table (upstream_ok (candidate_with research_text [])))
         (Some ''secret'') RESPONSE_SCHEMA (JStr ''   '')])"
  by (simp add: handler_cases try_block_def py_json_loads_def raise_for_status_def upstream_ok_def
        candidate_with_def process_result_def extract_sources_def blank_prompt_value_def)

text \<open>
  Claim C1, as amended. When the credential is set and the \<open>body\<close> of the event is
  absent or false (\<open>None\<close>, the empty string), the handler returns status 400 with
  a body that has an \<open>error\<close> field, and calls \<open>requests.post\<close> not once.
\<close>

theorem absent_body_400:
  "\<not> key_missing key \<Longrightarrow> \<not> truthy (dict_get event ''body'' JNull) \<Longrightarrow>
     handler env key event =
       (\<lparr>statusCode = 400, headers = None,
         body = json_dumps env (JObj [(''error'', JStr ''Missing prompt in request data.'')])\<rparr>, [])"
  by (simp add: handler_def try_block_no_body error_result_def)

text \<open>
  An event without \<open>body\<close> and an event whose \<open>body\<close> is the empty string.
\<close>

theorem absent_body_400_witness:
  "\<not> key_missing (Some ''secret'') \<and> \<not> truthy (dict_get [(''httpMethod'', JStr ''POST'')] ''body'' JNull)
   \<and> \<not> truthy (dict_get [(''body'', JStr [])] ''body'' JNull)
   \<and> handler (example_env example_table (upstream_ok (candidate_with research_text []))) (Some ''secret'')
        [(''httpMethod'', JStr ''POST'')] =
       (\<lparr>statusCode = 400, headers = None,
         body = example_dumps (JObj [(''error'', JStr ''Missing prompt in request data.'')])\<rparr>, [])
   \<and> handler (example_env example_table (upstream_ok (candidate_with research_text []))) (Some ''secret'')
        [(''body'', JStr [])] =
       (\<lparr>statusCode = 400, headers = None,
         body = example_dumps (JObj [(''error'', JStr ''Missing prompt in request data.'')])\<rparr>, [])"
  using absent_body_400 [of "Some ''secret''" "[(''httpMethod'', JStr ''POST'')]"
          "example_env example_table (upstream_ok (candidate_with research_text []))"]
        absent_body_400 [of "Some ''secret''" "[(''body'', JStr [])]"
          "example_env example_table (upstream_ok (candidate_with research_text []))"]
  by (simp add: dict_get_def)

text \<open>
  Claim C2 says that a body that is present and is not JSON gets status 400. The
  \<open>JSONDecodeError\<close> of \<open>json.loads(event['body'])\<close> is raised inside the \<open>try\<close>
  block and caught by the clause written for the answer of the model: \<open>research.py\<close>
  returns status 500 with the message about the response of the AI model, the copy
  under \<open>netlify/functions\<close> status 500 with the generic message. Neither makes an
  upstream call.
\<close>

theorem unparsable_body_500:
  "handler (example_env example_table (upstream_ok (candidate_with research_text [])))
       (Some ''secret'') [(''body'', JStr ''not json'')] =
     (\<lparr>statusCode = 500, headers = None,
       body = example_dumps (JObj [(''error'',
                JStr ''Failed to parse JSON response from AI model. Check prompt/schema alignment.'')])\<rparr>, [])
   \<and> handler_netlify (example_env example_table (upstream_ok (candidate_with research_text [])))
       (Some ''secret'') [(''body'', JStr ''not json'')] =
     (\<lparr>statusCode = 500, headers = None,
       body = example_dumps (JObj [(''error'',
                JStr ''An unexpected server error occurred: Expecting value: line 1 column 1 (char 0)''),
               (''details'', JStr ''Expecting value: line 1 column 1 (char 0)'')])\<rparr>, [])"
  by (simp add: handler_cases handler_netlify_cases try_block_def py_json_loads_def
        except_clauses_def except_clauses_netlify_def error_result_def)

text \<open>
  Claim C3. When \<open>GEMINI_API_KEY\<close> is unset or empty, the handler returns status 500
  with its fixed error message for every event and every behaviour of the libraries,
  and calls \<open>requests.post\<close> not once. Both copies of the handler do so; their
  messages differ in the last words.
\<close>

theorem missing_key_500:
  "key_missing key \<Longrightarrow>
     handler env key event =
       (\<lparr>statusCode = 500, headers = None,
         body = json_dumps env (JObj [(''error'', JStr ''Server API Key is missing. Set GEMINI_API_KEY environment variable.'')])\<rparr>, [])
     \<and> handler_netlify env key event =
       (\<lparr>statusCode = 500, headers = None,
         body = json_dumps env (JObj [(''error'', JStr ''Server API Key is missing. Set GEMINI_API_KEY environment variable in Netlify.'')])\<rparr>, [])"
  by (simp add: handler_def handler_netlify_def error_result_def)

text \<open>
  The empty key and the unset key, on a request that would otherwise succeed.
\<close>

theorem missing_key_500_witness:
  "key_missing (Some []) \<and>
   statusCode (fst (handler (example_env example_table (upstream_ok (candidate_with research_text []))) (Some [])
       [(''body'', JStr prompt_text)])) = 500
   \<and> snd (handler (example_env example_table (upstream_ok (candidate_with research_text []))) (Some [])
       [(''body'', JStr prompt_text)]) = []
   \<and> statusCode (fst (handler_netlify (example_env example_table (upstream_ok (candidate_with research_text []))) None
       [(''body'', JStr prompt_text)])) = 500"
  using missing_key_500 [of "Some []" "example_env example_table (upstream_ok (candidate_with research_text []))"
                            "[(''body'', JStr prompt_text)]"]
        missing_key_500 [of None "example_env example_table (upstream_ok (candidate_with research_text []))"
                            "[(''body'', JStr prompt_text)]"]
  by simp




text \<open>
  Claim C5 says that an upstream body with \<open>candidates: []\<close> gets status 500 with
  the message about an empty candidate list. The default \<open>[{}]\<close> stands in only for
  a missing key: on the empty list \<open>[][0]\<close> raises \<open>IndexError\<close> before the test
  \<open>if not candidate\<close> is reached, and the last \<open>except\<close> clause answers with
  status 500 and the generic message.
\<close>

theorem empty_candidates_index_error:
  "handler (example_env example_table (upstream_ok (JObj [(''candidates'', JArr [])])))
       (Some ''secret'') [(''body'', JStr prompt_text)] =
     (\<lparr>statusCode = 500, headers = None,
       body = example_dumps (JObj [(''error'',
                JStr ''An unexpected server error occurred: list index out of range''),
               (''details'', JStr ''list index out of range'')])\<rparr>,
      [gemini_request (example_env example_table (upstream_ok (JObj [(''candidates'', JArr [])])))
         (Some ''secret'') RESPONSE_SCHEMA (JStr ''modern UI'')])"
  by (simp add: handler_cases try_block_def py_json_loads_def raise_for_status_def upstream_ok_def
        process_result_def prompt_value_def except_clauses_def error_result_def)



text \<open>
  Claim C7. In \<open>research.py\<close>, a decoding failure of the upstream body (the
  \<open>requests.exceptions.JSONDecodeError\<close> of \<open>response.json()\<close>, which is a
  \<open>RequestException\<close>) and a decoding failure of the structured text (the
  \<open>json.JSONDecodeError\<close> of \<open>json.loads(json_text)\<close>) both get status 500, each
  with its own message: the first is caught by the \<open>RequestException\<close> clause, the
  second by the \<open>JSONDecodeError\<close> clause.
\<close>

theorem decode_failures_distinct:
  assumes "\<not> key_missing key"
    and "dict_get event ''body'' JNull = JStr s" and "s \<noteq> []"
    and "json_loads env1 s = Inr (JObj d1)"
    and "requests_post env1 (gemini_request env1 key RESPONSE_SCHEMA (dict_get d1 ''prompt'' JNull)) = Inr resp1"
    and "200 \<le> status_code resp1" and "status_code resp1 < 300"
    and "json_result resp1 = Inl (Exn RequestsJSONDecodeError m1)"
    and "json_loads env2 s = Inr (JObj d2)"
    and "requests_post env2 (gemini_request env2 key RESPONSE_SCHEMA (dict_get d2 ''prompt'' JNull)) = Inr resp2"
    and "200 \<le> status_code resp2" and "status_code resp2 < 300"
    and "json_result resp2 = Inr (JObj result)"
    and "map_of result ''candidates'' = Some (JArr (JObj candidate # others))"
    and "map_of candidate ''content'' = Some (JObj content)"
    and "map_of content ''parts'' = Some (JArr (JObj part # more_parts))"
    and "map_of part ''text'' = Some (JStr t)" and "t \<noteq> []"
    and "json_loads env2 t = Inl (Exn JSONDecodeError m2)"
  shows "fst (handler env1 key event) =
           \<lparr>statusCode = 500, headers = None,
            body = json_dumps env1
                     (JObj [(''error'', JStr (''Failed to communicate with the Gemini API: '' @ m1)),
                            (''details'', JStr m1)])\<rparr>
         \<and> fst (handler env2 key event) =
           \<lparr>statusCode = 500, headers = None,
            body = json_dumps env2
                     (JObj [(''error'',
                        JStr ''Failed to parse JSON response from AI model. Check prompt/schema alignment.'')])\<rparr>
         \<and> ''Failed to communicate with the Gemini API: '' @ m1
             \<noteq> ''Failed to parse JSON response from AI model. Check prompt/schema alignment.''"
proof -
  from assms(6,7) have ok1: "\<not> (400 \<le> status_code resp1 \<and> status_code resp1 < 600)" by simp
  from assms(11,12) have ok2: "\<not> (400 \<le> status_code resp2 \<and> status_code resp2 < 600)" by simp
  have outer: "fst (handler env1 key event) =
           \<lparr>statusCode = 500, headers = None,
            body = json_dumps env1
                     (JObj [(''error'', JStr (''Failed to communicate with the Gemini API: '' @ m1)),
                            (''details'', JStr m1)])\<rparr>"
    using try_block_upstream [OF assms(2,3,4,5) ok1] assms(1,8)
    by (simp add: handler_cases except_clauses_def error_result_def)
  from process_result_well_formed [OF assms(14-18), of env2] assms(19)
  have "process_result env2 (JObj result) = Inl (Exn JSONDecodeError m2)" by simp
  with try_block_upstream [OF assms(2,3,9,10) ok2] assms(1,13)
  have inner: "fst (handler env2 key event) =
           \<lparr>statusCode = 500, headers = None,
            body = json_dumps env2
                     (JObj [(''error'',
                        JStr ''Failed to parse JSON response from AI model. Check prompt/schema alignment.'')])\<rparr>"
    by (simp add: handler_cases except_clauses_def error_result_def)
  have "''Failed to communicate with the Gemini API: '' @ m1
             \<noteq> ''Failed to parse JSON response from AI model. Check prompt/schema alignment.''"
    by simp
  with outer inner show ?thesis by simp
qed

text \<open>
  An upstream answer whose body is not JSON, and one whose structured text is not
  JSON.
\<close>

theorem decode_failures_distinct_witness:
  "fst (handler (example_env example_table
           (Inr \<lparr>status_code = 200, http_error_msg = [],
                 json_result = Inl (Exn RequestsJSONDecodeError ''Expecting value: line 1 column 1 (char 0)'')\<rparr>))
         (Some ''secret'') [(''body'', JStr prompt_text)]) =
     \<lparr>statusCode = 500, headers = None,
      body = example_dumps
               (JObj [(''error'', JStr ''Failed to communicate with the Gemini API: Expecting value: line 1 column 1 (char 0)''),
                      (''details'', JStr ''Expecting value: line 1 column 1 (char 0)'')])\<rparr>
   \<and> fst (handler (example_env example_table (upstream_ok (candidate_with ''not json'' [])))
         (Some ''secret'') [(''body'', JStr prompt_text)]) =
     \<lparr>statusCode = 500, headers = None,
      body = example_dumps
               (JObj [(''error'',
                  JStr ''Failed to parse JSON response from AI model. Check prompt/schema alignment.'')])\<rparr>"
  using decode_failures_distinct [where key = "Some ''secret''"
          and event = "[(''body'', JStr prompt_text)]" and s = prompt_text
          and ?env1.0 = "example_env example_table
           (Inr \<lparr>status_code = 200, http_error_msg = [],
                 json_result = Inl (Exn RequestsJSONDecodeError ''Expecting value: line 1 column 1 (char 0)'')\<rparr>)"
          and ?d1.0 = "[(''prompt'', JStr ''modern UI'')]"
          and ?resp1.0 = "\<lparr>status_code = 200, http_error_msg = [],
                 json_result = Inl (Exn RequestsJSONDecodeError ''Expecting value: line 1 column 1 (char 0)'')\<rparr>"
          and ?m1.0 = "''Expecting value: line 1 column 1 (char 0)''"
          and ?env2.0 = "example_env example_table (upstream_ok (candidate_with ''not json'' []))"
          and ?d2.0 = "[(''prompt'', JStr ''modern UI'')]"
          and ?resp2.0 = "\<lparr>status_code = 200, http_error_msg = [],
                        json_result = Inr (candidate_with ''not json'' [])\<rparr>"
          and result = "[(''candidates'', JArr [JObj [(''content'', JObj [(''parts'', JArr [JObj [(''text'', JStr ''not json'')]])])]])]"
          and candidate = "[(''content'', JObj [(''parts'', JArr [JObj [(''text'', JStr ''not json'')]])])]"
          and others = "[]"
          and content = "[(''parts'', JArr [JObj [(''text'', JStr ''not json'')]])]"
          and part = "[(''text'', JStr ''not json'')]" and more_parts = "[]"
          and t = "''not json''" and ?m2.0 = "''Expecting value: line 1 column 1 (char 0)''"]
  by (simp add: upstream_ok_def prompt_value_def candidate_with_def)

text \<open>
  Claim C8 says that \<open>sources\<close> holds exactly the attributions whose \<open>web.uri\<close>
  is present. The handler tests \<open>web and web.get('uri')\<close>, which is the truth of the
  uri: an attribution whose uri is present and empty is dropped.
\<close>

theorem empty_uri_dropped_counterexample:
  "uri_present (JObj [(''web'', JObj [(''uri'', JStr []), (''title'', JStr ''T'')])])
   \<and> fst (handler (example_env example_table (upstream_ok (candidate_with research_text
           [(''groundingMetadata'', JObj [(''groundingAttributions'',
               JArr [JObj [(''web'', JObj [(''uri'', JStr []), (''title'', JStr ''T'')])]])])])))
       (Some ''secret'') [(''body'', JStr prompt_text)]) =
     \<lparr>statusCode = 200,
      headers = Some [(''Content-Type'', ''application/json'')],
      body = example_dumps (JObj [(''research'', research_value), (''sources'', JArr [])])\<rparr>"
  by (simp add: uri_present_def handler_cases try_block_def py_json_loads_def raise_for_status_def
        upstream_ok_def candidate_with_def process_result_def extract_sources_def prompt_value_def)

text \<open>
  Claim C8, as amended. For a well-formed candidate whose grounding data is absent, or
  has no attributions, or has a list of attributions each of which is a dict whose
  \<open>web\<close> is a dict or false: \<open>sources\<close> holds, in the order of the attributions,
  one entry for each attribution whose \<open>web.uri\<close> is true (present and neither
  \<open>None\<close> nor empty); the entry has that uri and the title of \<open>web\<close>, or the
  placeholder when \<open>web\<close> has no title; absent grounding data gives the empty
  list.
\<close>

theorem sources_mirror_kept_attributions:
  assumes "\<not> key_missing key"
    and "dict_get event ''body'' JNull = JStr s" and "s \<noteq> []"
    and "json_loads env s = Inr (JObj d)"
    and "requests_post env (gemini_request env key RESPONSE_SCHEMA (dict_get d ''prompt'' JNull)) = Inr resp"
    and "200 \<le> status_code resp" and "status_code resp < 300"
    and "json_result resp = Inr (JObj result)"
    and "map_of result ''candidates'' = Some (JArr (JObj candidate # others))"
    and "map_of candidate ''content'' = Some (JObj content)"
    and "map_of content ''parts'' = Some (JArr (JObj part # more_parts))"
    and "map_of part ''text'' = Some (JStr t)" and "t \<noteq> []"
    and "json_loads env t = Inr research_data"
    and "grounding_shaped candidate"
  shows "fst (handler env key event) =
           \<lparr>statusCode = 200,
            headers = Some [(''Content-Type'', ''application/json'')],
            body = json_dumps env
                     (JObj [(''research'', research_data),
                            (''sources'', JArr (map source_entry
                               (filter attribution_kept (grounding_attributions candidate))))])\<rparr>"
proof -
  from assms(6,7) have ok: "\<not> (400 \<le> status_code resp \<and> status_code resp < 600)" by simp
  from process_result_well_formed [OF assms(9-13), of env] assms(14)
    extract_sources_shaped [OF assms(15)]
  have "process_result env (JObj result) =
          Inr \<lparr>statusCode = 200, headers = Some [(''Content-Type'', ''application/json'')],
               body = json_dumps env
                     (JObj [(''research'', research_data),
                            (''sources'', JArr (map source_entry
                               (filter attribution_kept (grounding_attributions candidate))))])\<rparr>"
    by simp
  with try_block_upstream [OF assms(2-5) ok] assms(1,8) show ?thesis
    by (simp add: handler_cases)
qed

text \<open>
  Four attributions, of which the first and the third are kept; the third gets the
  placeholder title.
\<close>

theorem sources_mirror_kept_attributions_witness:
  "fst (handler (example_env example_table (upstream_ok (candidate_with research_text
           [(''groundingMetadata'', JObj [(''groundingAttributions'', example_attributions)])])))
       (Some ''secret'') [(''body'', JStr prompt_text)]) =
     \<lparr>statusCode = 200,
      headers = Some [(''Content-Type'', ''application/json'')],
      body = example_dumps
               (JObj [(''research'', research_value),
                      (''sources'', JArr
                         [JObj [(''uri'', JStr ''https://a.example/x''), (''title'', JStr ''A'')],
                          JObj [(''uri'', JStr ''https://b.example/y''),
                                (''title'', JStr ''No Title Available'')]])])\<rparr>"
  using sources_mirror_kept_attributions [where key = "Some ''secret''"
          and event = "[(''body'', JStr prompt_text)]" and s = prompt_text
          and env = "example_env example_table (upstream_ok (candidate_with research_text
                       [(''groundingMetadata'', JObj [(''groundingAttributions'', example_attributions)])]))"
          and d = "[(''prompt'', JStr ''modern UI'')]"
          and resp = "\<lparr>status_code = 200, http_error_msg = [],
                        json_result = Inr (candidate_with research_text
                          [(''groundingMetadata'', JObj [(''groundingAttributions'', example_attributions)])])\<rparr>"
          and result = "[(''candidates'', JArr [JObj [(''content'', JObj [(''parts'', JArr [JObj [(''text'', JStr research_text)]])]),
                           (''groundingMetadata'', JObj [(''groundingAttributions'', example_attributions)])]])]"
          and candidate = "[(''content'', JObj [(''parts'', JArr [JObj [(''text'', JStr research_text)]])]),
                           (''groundingMetadata'', JObj [(''groundingAttributions'', example_attributions)])]"
          and others = "[]"
          and content = "[(''parts'', JArr [JObj [(''text'', JStr research_text)]])]"
          and part = "[(''text'', JStr research_text)]" and more_parts = "[]"
          and t = research_text and research_data = research_value]
  by (simp add: upstream_ok_def prompt_value_def candidate_with_def example_attributions_def
        grounding_shaped_def grounding_attributions_def attribution_shaped_def attribution_kept_def
        attribution_web_def source_entry_def)

text \<open>
  Claim C9. For a well-formed candidate whose structured text decodes and which has no
  \<open>groundingMetadata\<close>, the handler returns status 200 with the JSON content type,
  and its body is \<open>json.dumps\<close> of \<open>research\<close>, the decoded text itself, and of
  \<open>sources\<close>, the empty list; it made one upstream call.
\<close>

theorem well_formed_candidate_200:
  assumes "\<not> key_missing key"
    and "dict_get event ''body'' JNull = JStr s" and "s \<noteq> []"
    and "json_loads env s = Inr (JObj d)"
    and "requests_post env (gemini_request env key RESPONSE_SCHEMA (dict_get d ''prompt'' JNull)) = Inr resp"
    and "200 \<le> status_code resp" and "status_code resp < 300"
    and "json_result resp = Inr (JObj result)"
    and "map_of result ''candidates'' = Some (JArr (JObj candidate # others))"
    and "map_of candidate ''content'' = Some (JObj content)"
    and "map_of content ''parts'' = Some (JArr (JObj part # more_parts))"
    and "map_of part ''text'' = Some (JStr t)" and "t \<noteq> []"
    and "json_loads env t = Inr research_data"
    and "map_of candidate ''groundingMetadata'' = None"
  shows "handler env key event =
           (\<lparr>statusCode = 200,
             headers = Some [(''Content-Type'', ''application/json'')],
             body = json_dumps env (JObj [(''research'', research_data), (''sources'', JArr [])])\<rparr>,
            [gemini_request env key RESPONSE_SCHEMA (dict_get d ''prompt'' JNull)])"
proof -
  from assms(6,7) have ok: "\<not> (400 \<le> status_code resp \<and> status_code resp < 600)" by simp
  from assms(15) have "grounding_shaped candidate" "grounding_attributions candidate = []"
    by (simp_all add: grounding_shaped_def grounding_attributions_def)
  with extract_sources_shaped [of candidate]
  have "extract_sources (dict_get candidate ''groundingMetadata'' (JObj [])) = Inr []" by simp
  with process_result_well_formed [OF assms(9-13), of env] assms(14)
  have "process_result env (JObj result) =
          Inr \<lparr>statusCode = 200, headers = Some [(''Content-Type'', ''application/json'')],
               body = json_dumps env (JObj [(''research'', research_data), (''sources'', JArr [])])\<rparr>"
    by simp
  with try_block_upstream [OF assms(2-5) ok] assms(1,8) show ?thesis
    by (simp add: handler_cases)
qed

text \<open>
  The structured text with three empty categories.
\<close>

theorem well_formed_candidate_200_witness:
  "handler (example_env example_table (upstream_ok (candidate_with research_text [])))
       (Some ''secret'') [(''body'', JStr prompt_text)] =
     (\<lparr>statusCode = 200,
       headers = Some [(''Content-Type'', ''application/json'')],
       body = example_dumps (JObj [(''research'', research_value), (''sources'', JArr [])])\<rparr>,
      [gemini_request (example_env example_table (upstream_ok (candidate_with research_text [])))
         (Some ''secret'') RESPONSE_SCHEMA (JStr ''modern UI'')])"
  using well_formed_candidate_200 [where key = "Some ''secret''" and event = "[(''body'', JStr prompt_text)]"
          and s = prompt_text
          and env = "example_env example_table (upstream_ok (candidate_with research_text []))"
          and d = "[(''prompt'', JStr ''modern UI'')]"
          and resp = "\<lparr>status_code = 200, http_error_msg = [],
                        json_result = Inr (candidate_with research_text [])\<rparr>"
          and result = "[(''candidates'', JArr [JObj [(''content'', JObj [(''parts'', JArr [JObj [(''text'', JStr research_text)]])])]])]"
          and candidate = "[(''content'', JObj [(''parts'', JArr [JObj [(''text'', JStr research_text)]])])]"
          and others = "[]"
          and content = "[(''parts'', JArr [JObj [(''text'', JStr research_text)]])]"
          and part = "[(''text'', JStr research_text)]" and more_parts = "[]"
          and t = research_text and research_data = research_value]
  by (simp add: upstream_ok_def prompt_value_def candidate_with_def)

text \<open>
  Claim C10. When the upstream body is a JSON object without the key \<open>candidates\<close>,
  the default \<open>[{}]\<close> makes the first candidate the empty dict, which is false, and
  the handler returns status 500 with the message about an empty candidate list.
\<close>

theorem missing_candidates_key_500:
  assumes "\<not> key_missing key"
    and "dict_get event ''body'' JNull = JStr s" and "s \<noteq> []"
    and "json_loads env s = Inr (JObj d)"
    and "requests_post env (gemini_request env key RESPONSE_SCHEMA (dict_get d ''prompt'' JNull)) = Inr resp"
    and "200 \<le> status_code resp" and "status_code resp < 300"
    and "json_result resp = Inr (JObj result)"
    and "map_of result ''candidates'' = None"
  shows "fst (handler env key event) =
           \<lparr>statusCode = 500, headers = None,
            body = json_dumps env (JObj [(''error'', JStr ''Gemini API returned an empty candidate list.'')])\<rparr>"
proof -
  from assms(6,7) have ok: "\<not> (400 \<le> status_code resp \<and> status_code resp < 600)" by simp
  have "process_result env (JObj result) =
          Inr (error_result env 500 (JObj [(''error'', JStr ''Gemini API returned an empty candidate list.'')]))"
    using assms(9) by (simp add: process_result_def dict_get_def)
  with try_block_upstream [OF assms(2,3,4,5) ok] assms(1,8) show ?thesis
    by (simp add: handler_cases error_result_def)
qed

text \<open>
  An upstream body with usage data and no candidates.
\<close>

theorem missing_candidates_key_500_witness:
  "fst (handler (example_env example_table (upstream_ok (JObj [(''usageMetadata'', JObj [])])))
         (Some ''secret'') [(''body'', JStr prompt_text)]) =
     \<lparr>statusCode = 500, headers = None,
      body = example_dumps (JObj [(''error'', JStr ''Gemini API returned an empty candidate list.'')])\<rparr>"
  using missing_candidates_key_500 [of "Some ''secret''" "[(''body'', JStr prompt_text)]" prompt_text
          "example_env example_table (upstream_ok (JObj [(''usageMetadata'', JObj [])]))"
          "[(''prompt'', JStr ''modern UI'')]"
          "\<lparr>status_code = 200, http_error_msg = [], json_result = Inr (JObj [(''usageMetadata'', JObj [])])\<rparr>"
          "[(''usageMetadata'', JObj [])]"]
  by (simp add: upstream_ok_def prompt_value_def)

end
